theory Spec2Isabelle
  imports Main "HOL-Library.Sublist" "HOL-Library.AList"
begin

section \<open>Strings\<close>

text \<open>
  A Python \<open>str\<close> is modelled as a \<open>string\<close> holding its UTF-8 encoding. The markers of
  the catalogue and the separator of \<open>split\<close> are ASCII, so \<open>sub in s\<close> and
  \<open>s.split("\n")\<close> on the encoding agree with Python's on code points.
\<close>

text \<open>\<open>sub in s\<close>: the string \<open>sub\<close> occurs in \<open>s\<close> as a contiguous run.\<close>

fun str_in :: "string \<Rightarrow> string \<Rightarrow> bool" where
  "str_in sub [] = (sub = [])"
| "str_in sub (c # cs) = (prefix sub (c # cs) \<or> str_in sub cs)"

text \<open>\<open>s.split("\n")\<close>: never empty; \<open>"".split("\n")\<close> is \<open>[""]\<close>.\<close>

fun split_nl :: "string \<Rightarrow> string list" where
  "split_nl [] = [[]]"
| "split_nl (c # cs) =
     (if c = CHR 0x0A then [] # split_nl cs
      else (case split_nl cs of
              [] \<Rightarrow> [[c]]
            | line # rest \<Rightarrow> (c # line) # rest))"

text \<open>\<open>str(n)\<close> for a length: decimal digits, no sign, no leading zero.\<close>

definition digit_char :: "nat \<Rightarrow> char" where
  "digit_char d = ''0123456789'' ! d"

fun str_nat :: "nat \<Rightarrow> string" where
  "str_nat n = (if n < 10 then [digit_char n] else str_nat (n div 10) @ [digit_char (n mod 10)])"

declare str_nat.simps [simp del]

text \<open>
  \<open>s.strip()\<close> removes leading and trailing white space. The list holds the UTF-8
  encodings of the code points Python counts as white space: U+0009..U+000D,
  U+001C..U+0020, U+0085, U+00A0, U+1680, U+2000..U+200A, U+2028, U+2029, U+202F, U+205F
  and U+3000.
\<close>

definition whitespace :: "string list" where
  "whitespace =
     [[CHR 0x09], [CHR 0x0A], [CHR 0x0B], [CHR 0x0C], [CHR 0x0D],
      [CHR 0x1C], [CHR 0x1D], [CHR 0x1E], [CHR 0x1F], [CHR 0x20],
      [CHR 0xC2, CHR 0x85], [CHR 0xC2, CHR 0xA0],
      [CHR 0xE1, CHR 0x9A, CHR 0x80],
      [CHR 0xE2, CHR 0x80, CHR 0x80], [CHR 0xE2, CHR 0x80, CHR 0x81],
      [CHR 0xE2, CHR 0x80, CHR 0x82], [CHR 0xE2, CHR 0x80, CHR 0x83],
      [CHR 0xE2, CHR 0x80, CHR 0x84], [CHR 0xE2, CHR 0x80, CHR 0x85],
      [CHR 0xE2, CHR 0x80, CHR 0x86], [CHR 0xE2, CHR 0x80, CHR 0x87],
      [CHR 0xE2, CHR 0x80, CHR 0x88], [CHR 0xE2, CHR 0x80, CHR 0x89],
      [CHR 0xE2, CHR 0x80, CHR 0x8A],
      [CHR 0xE2, CHR 0x80, CHR 0xA8], [CHR 0xE2, CHR 0x80, CHR 0xA9],
      [CHR 0xE2, CHR 0x80, CHR 0xAF], [CHR 0xE2, CHR 0x81, CHR 0x9F],
      [CHR 0xE3, CHR 0x80, CHR 0x80]]"

text \<open>Drop leading occurrences of the given non-empty patterns, as long as one matches.\<close>

function strip_leading :: "string list \<Rightarrow> string \<Rightarrow> string" where
  "strip_leading pats s =
     (case find (\<lambda>p. p \<noteq> [] \<and> prefix p s) pats of
        None \<Rightarrow> s
      | Some p \<Rightarrow> strip_leading pats (drop (length p) s))"
  by pat_completeness auto
termination
proof (relation "measure (\<lambda>(pats, s). length s)")
  show "wf (measure (\<lambda>(pats, s). length s))" by simp
next
  fix pats :: "string list" and s p :: string
  assume "find (\<lambda>p. p \<noteq> [] \<and> prefix p s) pats = Some p"
  then have "p \<noteq> [] \<and> prefix p s"
    by (auto simp: find_Some_iff)
  then have "length s - length p < length s"
    by (cases p) (auto simp: prefix_def)
  then show "((pats, drop (length p) s), (pats, s)) \<in> measure (\<lambda>(pats, s). length s)"
    by simp
qed

declare strip_leading.simps [simp del]

definition strip :: "string \<Rightarrow> string" where
  "strip s = rev (strip_leading (map rev whitespace) (rev (strip_leading whitespace s)))"

section \<open>The indicator catalogue\<close>

definition WEAK_TLS_INDICATORS :: "string list" where
  "WEAK_TLS_INDICATORS =
     [''SSLv2'', ''SSLv3'', ''TLSv1.0'', ''TLSv1.1'', ''EXP'', ''LOW'', ''MEDIUM'',
      ''CBC'', ''RC4'', ''3DES'']"

text \<open>\<open>any(weak in s for weak in WEAK_TLS_INDICATORS)\<close>\<close>

definition any_weak :: "string \<Rightarrow> bool" where
  "any_weak s = list_ex (\<lambda>weak. str_in weak s) WEAK_TLS_INDICATORS"

section \<open>Classification of the targets\<close>

text \<open>
  A Python \<open>dict\<close> keeps its items in insertion order and holds a key once: it is an
  association list with distinct keys, and \<open>d[k] = v\<close> is \<open>AList.update k v d\<close>, which
  replaces the value of a key in place and appends a new key.
\<close>

type_synonym 'v dict = "(string \<times> 'v) list"

record classification =
  strong_targets :: "string list"
  weak_targets :: "string list dict"

text \<open>The body of the loop \<open>for target, output in scan_results.items()\<close>.\<close>

definition classify_target :: "string \<times> string \<Rightarrow> classification \<Rightarrow> classification" where
  "classify_target item st =
     (case item of (target, output) \<Rightarrow>
        if any_weak output
        then st\<lparr>weak_targets :=
                 AList.update target (filter any_weak (split_nl output)) (weak_targets st)\<rparr>
        else st\<lparr>strong_targets := strong_targets st @ [target]\<rparr>)"

definition classify_targets :: "string dict \<Rightarrow> classification" where
  "classify_targets scan_results =
     fold classify_target scan_results \<lparr>strong_targets = [], weak_targets = []\<rparr>"

text \<open>
  The two risk counts of the cover page are lengths of list comprehensions over the weak
  targets; \<open>''.join(issues)\<close> is \<open>concat issues\<close>. Iterating the keys of the dictionary
  and reading \<open>weak_targets[t]\<close> is iterating its items.
\<close>

definition is_high_risk :: "string list \<Rightarrow> bool" where
  "is_high_risk issues = (str_in ''TLS 1.0'' (concat issues) \<or> str_in ''RC4'' (concat issues))"

definition is_medium_risk :: "string list \<Rightarrow> bool" where
  "is_medium_risk issues = str_in ''CBC'' (concat issues)"

definition high_risk_findings :: "string list dict \<Rightarrow> string list" where
  "high_risk_findings weak = map fst (filter (\<lambda>(t, issues). is_high_risk issues) weak)"

definition medium_risk_findings :: "string list dict \<Rightarrow> string list" where
  "medium_risk_findings weak = map fst (filter (\<lambda>(t, issues). is_medium_risk issues) weak)"

section \<open>Pages\<close>

text \<open>
  The imaging library is the sink of the report: a page is the list of the drawing calls
  made on it, in order. \<open>draw.rectangle\<close> is called with a fill or with an outline
  and a width, \<open>draw.text\<close> with a position, a text, a font and a fill colour.
\<close>

datatype color = Red | Black | Green | Orange | White

datatype font = TrueType string nat | DefaultFont

datatype draw_op =
    FillRect "int \<times> int" "int \<times> int" color
  | OutlineRect "int \<times> int" "int \<times> int" color nat
  | DrawText "int \<times> int" string font color

text \<open>
  \<open>CoverImage img size\<close> is the image file \<open>img\<close> converted to RGB and resized;
  \<open>Canvas size bg ops\<close> is \<open>Image.new("RGB", size, bg)\<close> with the drawing calls
  \<open>ops\<close> made on it.
\<close>

datatype page =
    CoverImage string "nat \<times> nat"
  | Canvas "nat \<times> nat" color "draw_op list"

record fonts =
  title_font :: font
  header_font :: font
  body_font :: font

text \<open>
  What a run finds outside the program: the content of the file at \<open>COVER_IMAGE_PATH\<close>
  (\<open>None\<close> when the path does not exist), whether each of the two font files loads, the
  clock (already formatted by \<open>strftime\<close>), the standard output of the scanner for a
  target, and the lines of a text file (\<open>None\<close> when the path does not exist).
\<close>

record world =
  cover_image :: "string option"
  bold_font_ok :: bool
  regular_font_ok :: bool
  now :: string
  nmap_stdout :: "string \<Rightarrow> string"
  read_lines :: "string \<Rightarrow> string list option"

text \<open>The \<open>try\<close> block: one font that fails to load sends all three to the default.\<close>

definition load_fonts :: "world \<Rightarrow> fonts" where
  "load_fonts w =
     (if bold_font_ok w \<and> regular_font_ok w
      then \<lparr>title_font = TrueType ''Times New Roman Bold.ttf'' 50,
            header_font = TrueType ''Times New Roman.ttf'' 35,
            body_font = TrueType ''Times New Roman.ttf'' 22\<rparr>
      else \<lparr>title_font = DefaultFont, header_font = DefaultFont, body_font = DefaultFont\<rparr>)"

text \<open>The bullet U+2022 that starts the lines of the findings summary.\<close>

definition bullet :: string where
  "bullet = [CHR 0xE2, CHR 0x80, CHR 0xA2]"

definition cover_page :: "fonts \<Rightarrow> string dict \<Rightarrow> classification \<Rightarrow> string \<Rightarrow> page" where
  "cover_page fs scan_results cls scan_date =
     Canvas (1000, 1400) White
       [FillRect (0, 0) (1000, 200) Black,
        DrawText (250, 80) ''TLS/SSL Scan Report'' (title_font fs) Red,
        FillRect (0, 1250) (1000, 1400) Black,
        DrawText (300, 1300) ''Confidential Security Report'' (header_font fs) Red,
        DrawText (100, 300) ''Prepared by: Security Team'' (header_font fs) Black,
        DrawText (100, 350) (''Date: '' @ scan_date) (header_font fs) Black,
        DrawText (100, 400) ''Report ID: TLS-SEC-2025-001'' (header_font fs) Black,
        DrawText (100, 500) ''Scope: External TLS/SSL Security Assessment''
          (header_font fs) Black,
        DrawText (100, 550) ''Assessment Methodology: Automated & Manual Verification''
          (header_font fs) Black,
        DrawText (100, 600) ''Scanner Used: Nmap (ssl-enum-ciphers)'' (header_font fs) Black,
        DrawText (100, 700) '' Security Findings Summary:'' (header_font fs) Red,
        DrawText (100, 750)
          (bullet @ '' Number of Targets Scanned: '' @ str_nat (length scan_results))
          (body_font fs) Black,
        DrawText (100, 800)
          (bullet @ '' Targets with Strong Ciphers: '' @ str_nat (length (strong_targets cls)))
          (body_font fs) Green,
        DrawText (100, 850)
          (bullet @ '' Targets with Weak Ciphers: '' @ str_nat (length (weak_targets cls)))
          (body_font fs) Red,
        DrawText (100, 900)
          (bullet @ '' High-Risk Findings: ''
             @ str_nat (length (high_risk_findings (weak_targets cls))))
          (body_font fs) Red,
        DrawText (100, 950)
          (bullet @ '' Medium-Risk Findings: ''
             @ str_nat (length (medium_risk_findings (weak_targets cls))))
          (body_font fs) Orange,
        DrawText (100, 1000)
          (bullet @ '' Recommended Actions: Immediate Mitigation Required'')
          (body_font fs) Black]"

text \<open>
  The summary and detail pages are drawn with a vertical cursor. The state of such a
  page is the calls made so far and the cursor \<open>y_position\<close>.
\<close>

record canvas =
  ops :: "draw_op list"
  y_position :: int

definition text_at :: "int \<Rightarrow> string \<Rightarrow> font \<Rightarrow> color \<Rightarrow> canvas \<Rightarrow> canvas" where
  "text_at x s f col cv = cv\<lparr>ops := ops cv @ [DrawText (x, y_position cv) s f col]\<rparr>"

definition advance :: "int \<Rightarrow> canvas \<Rightarrow> canvas" where
  "advance d cv = cv\<lparr>y_position := y_position cv + d\<rparr>"

text \<open>The body of \<open>for target, issues in weak_targets.items()\<close> on the summary page.\<close>

definition weak_entry :: "fonts \<Rightarrow> string \<times> string list \<Rightarrow> canvas \<Rightarrow> canvas" where
  "weak_entry fs item cv =
     (case item of (target, issues) \<Rightarrow>
        advance 20
          (fold (\<lambda>issue c. advance 25 (text_at 140 ('' '' @ strip issue) (body_font fs) Red c))
             issues
             (advance 30 (text_at 120 ('' '' @ target @ '':'') (body_font fs) Black cv))))"

definition summary_page :: "fonts \<Rightarrow> classification \<Rightarrow> page" where
  "summary_page fs cls =
     (let cv0 = \<lparr>ops = [], y_position = 150\<rparr>;
          cv1 = advance 50
                  (text_at 100 '' Strong Cipher Configuration:'' (header_font fs) Black cv0);
          cv2 = (if strong_targets cls \<noteq> []
                 then fold (\<lambda>target c.
                              advance 30 (text_at 120 ('' '' @ target) (body_font fs) Black c))
                        (strong_targets cls) cv1
                 else advance 30
                        (text_at 120 '' No strong cipher configurations found!''
                           (body_font fs) Black cv1));
          cv3 = advance 50 cv2;
          cv4 = advance 50
                  (text_at 100 '' Weak Ciphers/Protocols Detected:'' (header_font fs) Black cv3);
          cv5 = (if weak_targets cls \<noteq> []
                 then fold (weak_entry fs) (weak_targets cls) cv4
                 else text_at 120 '' No weak configurations detected!'' (body_font fs) Black cv4)
      in Canvas (1000, 1400) White (ops cv5))"

text \<open>
  The loop over the lines of a detail page: \<open>break\<close> as soon as the cursor is beyond
  1300, else one text call in red or black and the cursor moves down by 25.
\<close>

fun render_lines :: "font \<Rightarrow> string list \<Rightarrow> canvas \<Rightarrow> canvas" where
  "render_lines f [] cv = cv"
| "render_lines f (line # rest) cv =
     (if y_position cv > 1300 then cv
      else render_lines f rest
             (advance 25
                (if any_weak line then text_at 70 line f Red cv
                 else text_at 70 line f Black cv)))"

definition detail_page :: "fonts \<Rightarrow> string \<times> string \<Rightarrow> page" where
  "detail_page fs item =
     (case item of (target, output) \<Rightarrow>
        let cv0 = \<lparr>ops = [DrawText (100, 80) (''Scan Result for: '' @ target)
                             (header_font fs) Black,
                           OutlineRect (50, 200) (950, 1350) Black 3],
                    y_position = 220\<rparr>
        in Canvas (1000, 1400) White (ops (render_lines (body_font fs) (split_nl output) cv0)))"

section \<open>The report\<close>

text \<open>
  \<open>create_pdf\<close> returns the list \<open>images\<close> it saves as the pages of the document. The
  path \<open>output_pdf\<close> names the file written and does not enter any page.
\<close>

definition create_pdf :: "world \<Rightarrow> string dict \<Rightarrow> string \<Rightarrow> string \<Rightarrow> page list" where
  "create_pdf w scan_results output_pdf scan_date =
     (let images = (case cover_image w of
                      Some img \<Rightarrow> [CoverImage img (1000, 1454)]
                    | None \<Rightarrow> []);
          fs = load_fonts w;
          cls = classify_targets scan_results
      in images
         @ [cover_page fs scan_results cls scan_date]
         @ [summary_page fs cls]
         @ map (detail_page fs) scan_results)"

text \<open>Line 35: an empty standard output is replaced by a fixed sentence.\<close>

definition scan_output :: "string \<Rightarrow> string" where
  "scan_output stdout = (if stdout \<noteq> [] then stdout else ''No output or scan failed.'')"

text \<open>
  \<open>run_ssl_scan\<close> returns \<open>None\<close> where the source prints an error and returns before
  any scan, else the pages of the report it has written.
\<close>

definition run_ssl_scan :: "world \<Rightarrow> string \<Rightarrow> string \<Rightarrow> page list option" where
  "run_ssl_scan w targets_file output_pdf =
     (case read_lines w targets_file of
        None \<Rightarrow> None
      | Some file_lines \<Rightarrow>
          let targets = map strip (filter (\<lambda>line. strip line \<noteq> []) file_lines)
          in if targets = [] then None
             else
               let scan_date = now w;
                   scan_results =
                     fold (\<lambda>target res. AList.update target (scan_output (nmap_stdout w target)) res)
                       targets []
               in Some (create_pdf w scan_results output_pdf scan_date))"

section \<open>Matching and splitting\<close>

text \<open>
  \<open>sub in s\<close> is the library's \<open>sublist\<close>: \<open>s\<close> is \<open>ps @ sub @ ss\<close> for some
  \<open>ps\<close> and \<open>ss\<close>. No marker holds a line feed, so a marker occurs in a text exactly
  when it occurs in one of its lines.
\<close>

lemma str_in_sublist: "str_in sub s \<longleftrightarrow> sublist sub s"
  by (induction s) (auto simp: sublist_Cons_right)

lemma split_nl_nonempty: "split_nl s \<noteq> []"
  by (induction s) (auto split: list.splits)

lemma hd_split_nl: "hd (split_nl s) = takeWhile (\<lambda>c. c \<noteq> CHR 0x0A) s"
  by (induction s) (auto split: list.splits simp: split_nl_nonempty)

lemma prefix_takeWhile_nl:
  assumes "CHR 0x0A \<notin> set w"
  shows "prefix w s \<longleftrightarrow> prefix w (takeWhile (\<lambda>c. c \<noteq> CHR 0x0A) s)"
proof
  assume "prefix w s"
  then obtain r where s: "s = w @ r" by (auto simp: prefix_def)
  have "takeWhile (\<lambda>c. c \<noteq> CHR 0x0A) (w @ r) = w @ takeWhile (\<lambda>c. c \<noteq> CHR 0x0A) r"
    using assms by (intro takeWhile_append2) auto
  then show "prefix w (takeWhile (\<lambda>c. c \<noteq> CHR 0x0A) s)"
    by (simp add: s)
next
  assume "prefix w (takeWhile (\<lambda>c. c \<noteq> CHR 0x0A) s)"
  moreover have "prefix (takeWhile (\<lambda>c. c \<noteq> CHR 0x0A) s) s"
    by (metis prefixI takeWhile_dropWhile_id)
  ultimately show "prefix w s" by (rule prefix_order.trans)
qed

lemma str_in_split_nl:
  assumes "CHR 0x0A \<notin> set w"
  shows "str_in w s \<longleftrightarrow> (\<exists>l \<in> set (split_nl s). str_in w l)"
proof (induction s)
  case Nil
  show ?case by simp
next
  case (Cons c cs)
  show ?case
  proof (cases "c = CHR 0x0A")
    case True
    have "prefix w (c # cs) \<longleftrightarrow> w = []"
      using assms True by (cases w) auto
    moreover have "w = [] \<Longrightarrow> str_in w cs"
      by (cases cs) auto
    ultimately show ?thesis
      using Cons True by auto
  next
    case False
    obtain l ls where sp: "split_nl cs = l # ls"
      using split_nl_nonempty [of cs] by (cases "split_nl cs") auto
    have l: "l = takeWhile (\<lambda>c. c \<noteq> CHR 0x0A) cs"
      using hd_split_nl [of cs] sp by simp
    have "prefix w (c # cs) \<longleftrightarrow> prefix w (c # l)"
      using prefix_takeWhile_nl [OF assms, of "c # cs"] False l by simp
    then show ?thesis
      using Cons False sp by auto
  qed
qed

lemma nl_notin_indicators: "weak \<in> set WEAK_TLS_INDICATORS \<Longrightarrow> CHR 0x0A \<notin> set weak"
  by (auto simp: WEAK_TLS_INDICATORS_def)

lemma any_weak_iff: "any_weak s \<longleftrightarrow> (\<exists>weak \<in> set WEAK_TLS_INDICATORS. sublist weak s)"
  by (simp add: any_weak_def list_ex_iff str_in_sublist)

lemma any_weak_split_nl: "any_weak s \<longleftrightarrow> (\<exists>l \<in> set (split_nl s). any_weak l)"
  unfolding any_weak_def list_ex_iff
  using str_in_split_nl [OF nl_notin_indicators] by blast

section \<open>The classification in closed form\<close>

text \<open>
  On a dictionary every assignment \<open>weak_targets[target] = \<dots>\<close> of the loop adds a new
  key, so the loop filters the items of \<open>scan_results\<close> twice, keeping their order.
\<close>

lemma update_fresh: "k \<notin> fst ` set al \<Longrightarrow> AList.update k v al = al @ [(k, v)]"
  by (induction al) auto

lemma fold_classify_strong:
  "strong_targets (fold classify_target rs st)
     = strong_targets st @ map fst (filter (\<lambda>(t, out). \<not> any_weak out) rs)"
  by (induction rs arbitrary: st) (auto simp: classify_target_def)

lemma fold_classify_weak:
  "distinct (map fst rs) \<Longrightarrow> fst ` set rs \<inter> fst ` set (weak_targets st) = {} \<Longrightarrow>
   weak_targets (fold classify_target rs st)
     = weak_targets st
       @ map (\<lambda>(t, out). (t, filter any_weak (split_nl out)))
           (filter (\<lambda>(t, out). any_weak out) rs)"
proof (induction rs arbitrary: st)
  case Nil
  show ?case by simp
next
  case (Cons r rs)
  obtain t out where r: "r = (t, out)" by (cases r)
  let ?st = "classify_target r st"
  have w: "weak_targets ?st
           = weak_targets st @ (if any_weak out then [(t, filter any_weak (split_nl out))] else [])"
    using Cons.prems r by (auto simp: classify_target_def update_fresh)
  have "fst ` set rs \<inter> fst ` set (weak_targets ?st) = {}"
    using Cons.prems r w by (auto simp: image_iff)
  moreover have "distinct (map fst rs)"
    using Cons.prems by simp
  ultimately show ?case
    using Cons.IH [of ?st] w r by simp
qed

lemma classify_strong:
  "strong_targets (classify_targets rs) = map fst (filter (\<lambda>(t, out). \<not> any_weak out) rs)"
  by (simp add: classify_targets_def fold_classify_strong)

lemma classify_weak:
  "distinct (map fst rs) \<Longrightarrow>
   weak_targets (classify_targets rs)
     = map (\<lambda>(t, out). (t, filter any_weak (split_nl out))) (filter (\<lambda>(t, out). any_weak out) rs)"
  by (simp add: classify_targets_def fold_classify_weak)

lemma weak_lookup:
  assumes "distinct (map fst rs)" and "(t, out) \<in> set rs"
  shows "map_of (weak_targets (classify_targets rs)) t
           = (if any_weak out then Some (filter any_weak (split_nl out)) else None)"
proof -
  have "map_of (map (\<lambda>(t, out). (t, f out)) (filter (\<lambda>(t, out). P out) xs)) t
          = (if P out then Some (f out) else None)"
    if "distinct (map fst xs)" and "(t, out) \<in> set xs"
    for xs :: "(string \<times> string) list" and f :: "string \<Rightarrow> string list" and P
    using that by (induction xs) (auto simp: rev_image_eqI map_of_eq_None_iff image_iff)
  then show ?thesis
    using assms by (simp add: classify_weak)
qed

lemma strong_member:
  assumes "distinct (map fst rs)" and "(t, out) \<in> set rs"
  shows "t \<in> set (strong_targets (classify_targets rs)) \<longleftrightarrow> \<not> any_weak out"
  using assms eq_key_imp_eq_value [OF assms(1)]
  by (auto simp: classify_strong image_iff) 

lemma weak_member:
  assumes "distinct (map fst rs)" and "(t, out) \<in> set rs"
  shows "t \<in> fst ` set (weak_targets (classify_targets rs)) \<longleftrightarrow> any_weak out"
  using weak_lookup [OF assms] map_of_eq_None_iff [of "weak_targets (classify_targets rs)" t]
  by (auto split: if_splits)

section \<open>Verdict and matched lines\<close>

text \<open>
  Claim C1. A target of a dictionary \<open>scan_results\<close> is a key of \<open>weak_targets\<close> (verdict
  weak) exactly when a line of its output contains a marker of the catalogue, and is in
  \<open>strong_targets\<close> (verdict strong) exactly when no line does. For a weak target the
  lines stored under it are the lines of the output that contain a marker, in their
  order; a strong target has no entry in \<open>weak_targets\<close>, hence no matched line.
\<close>

theorem classifier_verdict:
  assumes "distinct (map fst scan_results)" and "(target, output) \<in> set scan_results"
  shows "let cls = classify_targets scan_results;
             marked = (\<lambda>line. \<exists>marker \<in> set WEAK_TLS_INDICATORS. sublist marker line)
         in (target \<in> fst ` set (weak_targets cls) \<longleftrightarrow> (\<exists>line \<in> set (split_nl output). marked line))
          \<and> (target \<in> set (strong_targets cls) \<longleftrightarrow> \<not> (\<exists>line \<in> set (split_nl output). marked line))
          \<and> map_of (weak_targets cls) target
              = (if \<exists>line \<in> set (split_nl output). marked line
                 then Some (filter marked (split_nl output)) else None)"
proof -
  have m: "(\<lambda>line. \<exists>marker \<in> set WEAK_TLS_INDICATORS. sublist marker line) = any_weak"
    by (simp add: any_weak_iff fun_eq_iff)
  show ?thesis
    unfolding Let_def m
    using weak_lookup [OF assms] strong_member [OF assms] weak_member [OF assms]
      any_weak_split_nl [of "output"]
    by simp
qed

text \<open>
  The theorem at a dictionary of two targets: the first has one line with a marker and
  one without, and is weak with that one line as its matched lines.
\<close>

theorem classifier_verdict_witness:
  "distinct (map fst [(''10.0.0.1'', ''TLSv1.0 enabled\<newline>AES256-GCM strong''),
                      (''10.0.0.2'', ''TLS_AES_256_GCM_SHA384 preferred'')])
   \<and> (''10.0.0.1'', ''TLSv1.0 enabled\<newline>AES256-GCM strong'')
       \<in> set [(''10.0.0.1'', ''TLSv1.0 enabled\<newline>AES256-GCM strong''),
               (''10.0.0.2'', ''TLS_AES_256_GCM_SHA384 preferred'')]
   \<and> ''10.0.0.1'' \<in> fst ` set (weak_targets (classify_targets
         [(''10.0.0.1'', ''TLSv1.0 enabled\<newline>AES256-GCM strong''),
          (''10.0.0.2'', ''TLS_AES_256_GCM_SHA384 preferred'')]))
   \<and> ''10.0.0.1'' \<notin> set (strong_targets (classify_targets
         [(''10.0.0.1'', ''TLSv1.0 enabled\<newline>AES256-GCM strong''),
          (''10.0.0.2'', ''TLS_AES_256_GCM_SHA384 preferred'')]))
   \<and> map_of (weak_targets (classify_targets
         [(''10.0.0.1'', ''TLSv1.0 enabled\<newline>AES256-GCM strong''),
          (''10.0.0.2'', ''TLS_AES_256_GCM_SHA384 preferred'')])) ''10.0.0.1''
       = Some [''TLSv1.0 enabled'']"
proof -
  let ?rs = "[(''10.0.0.1'', ''TLSv1.0 enabled\<newline>AES256-GCM strong''),
              (''10.0.0.2'', ''TLS_AES_256_GCM_SHA384 preferred'')]"
  have h1: "distinct (map fst ?rs)" by simp
  have h2: "(''10.0.0.1'', ''TLSv1.0 enabled\<newline>AES256-GCM strong'') \<in> set ?rs" by simp
  have l: "split_nl ''TLSv1.0 enabled\<newline>AES256-GCM strong''
             = [''TLSv1.0 enabled'', ''AES256-GCM strong'']"
    by simp
  have m1: "\<exists>marker \<in> set WEAK_TLS_INDICATORS. sublist marker ''TLSv1.0 enabled''"
    by (simp add: WEAK_TLS_INDICATORS_def str_in_sublist [symmetric])
  have m2: "\<not> (\<exists>marker \<in> set WEAK_TLS_INDICATORS. sublist marker ''AES256-GCM strong'')"
    by (simp add: WEAK_TLS_INDICATORS_def str_in_sublist [symmetric])
  show ?thesis
    using h1 h2 classifier_verdict [OF h1 h2] m1 m2
    unfolding Let_def l by simp
qed

section \<open>Counts\<close>

text \<open>
  Claim C5. For every dictionary \<open>scan_results\<close>, the empty one included, the numbers
  of strong and of weak targets printed on the cover page add up to the number of
  targets scanned: no target is both strong and weak, and every target is one of the
  two.
\<close>

theorem summary_counts_partition:
  assumes "distinct (map fst scan_results)"
  shows "length (strong_targets (classify_targets scan_results))
           + length (weak_targets (classify_targets scan_results))
         = length scan_results
       \<and> set (strong_targets (classify_targets scan_results))
           \<inter> fst ` set (weak_targets (classify_targets scan_results)) = {}
       \<and> set (strong_targets (classify_targets scan_results))
           \<union> fst ` set (weak_targets (classify_targets scan_results)) = fst ` set scan_results"
proof -
  let ?P = "\<lambda>(t :: string, out). any_weak out"
  have np: "(\<lambda>(t :: string, out). \<not> any_weak out) = (\<lambda>x. \<not> ?P x)"
    by (simp add: fun_eq_iff)
  have "length (filter (\<lambda>x. \<not> ?P x) scan_results) + length (filter ?P scan_results)
          = length scan_results"
    using sum_length_filter_compl [of ?P scan_results] by simp
  then have a: "length (strong_targets (classify_targets scan_results))
                  + length (weak_targets (classify_targets scan_results))
                = length scan_results"
    using assms by (simp add: classify_strong classify_weak np)
  have b: "set (strong_targets (classify_targets scan_results))
             \<inter> fst ` set (weak_targets (classify_targets scan_results)) = {}"
  proof -
    have False
      if s: "t \<in> set (strong_targets (classify_targets scan_results))"
        and w: "t \<in> fst ` set (weak_targets (classify_targets scan_results))" for t
    proof -
      obtain out where m: "(t, out) \<in> set scan_results" and "\<not> any_weak out"
        using s by (auto simp: classify_strong)
      then show False
        using weak_member [OF assms m] w by simp
    qed
    then show ?thesis by blast
  qed
  have c: "set (strong_targets (classify_targets scan_results))
             \<union> fst ` set (weak_targets (classify_targets scan_results)) = fst ` set scan_results"
    using assms by (force simp: classify_strong classify_weak image_iff)
  show ?thesis using a b c by blast
qed


text \<open>The theorem at a dictionary of one weak and one strong target: \<open>1 + 1 = 2\<close>.\<close>

theorem summary_counts_partition_witness:
  "distinct (map fst [(''10.0.0.1'', ''TLSv1.0 enabled\<newline>AES256-GCM strong''),
                      (''10.0.0.2'', ''TLS_AES_256_GCM_SHA384 preferred'')])
   \<and> length (strong_targets (classify_targets
         [(''10.0.0.1'', ''TLSv1.0 enabled\<newline>AES256-GCM strong''),
          (''10.0.0.2'', ''TLS_AES_256_GCM_SHA384 preferred'')]))
       + length (weak_targets (classify_targets
         [(''10.0.0.1'', ''TLSv1.0 enabled\<newline>AES256-GCM strong''),
          (''10.0.0.2'', ''TLS_AES_256_GCM_SHA384 preferred'')]))
       = length [(''10.0.0.1'', ''TLSv1.0 enabled\<newline>AES256-GCM strong''),
                 (''10.0.0.2'', ''TLS_AES_256_GCM_SHA384 preferred'')]
   \<and> length (strong_targets (classify_targets
         [(''10.0.0.1'', ''TLSv1.0 enabled\<newline>AES256-GCM strong''),
          (''10.0.0.2'', ''TLS_AES_256_GCM_SHA384 preferred'')])) = 1"
proof -
  let ?rs = "[(''10.0.0.1'', ''TLSv1.0 enabled\<newline>AES256-GCM strong''),
              (''10.0.0.2'', ''TLS_AES_256_GCM_SHA384 preferred'')]"
  have h: "distinct (map fst ?rs)" by simp
  have s: "length (strong_targets (classify_targets ?rs)) = 1"
    by (simp add: classify_targets_def classify_target_def any_weak_def WEAK_TLS_INDICATORS_def)
  show ?thesis
    using h s summary_counts_partition [OF h] by blast
qed

section \<open>Risk counts\<close>

text \<open>
  The high-risk count tests the joined matched lines of a weak target for the two
  literals \<open>TLS 1.0\<close> and \<open>RC4\<close>, the medium-risk count for \<open>CBC\<close>. A marker that
  occurs in one matched line occurs in the joined text.
\<close>

lemma sublist_concat_member: "l \<in> set ls \<Longrightarrow> sublist l (concat ls)"
proof -
  assume "l \<in> set ls"
  then obtain as bs where "ls = as @ l # bs"
    by (auto simp: in_set_conv_decomp)
  then have "concat ls = concat as @ l @ concat bs" by simp
  then show ?thesis unfolding sublist_def by blast
qed

lemma str_in_concat_member:
  "line \<in> set issues \<Longrightarrow> sublist marker line \<Longrightarrow> str_in marker (concat issues)"
  using sublist_concat_member [of line issues] sublist_order.order.trans [of marker line "concat issues"]
  by (simp add: str_in_sublist)

lemma high_risk_findings_keys: "set (high_risk_findings weak) \<subseteq> fst ` set weak"
  by (auto simp: high_risk_findings_def image_iff)

lemma medium_risk_findings_keys: "set (medium_risk_findings weak) \<subseteq> fst ` set weak"
  by (auto simp: medium_risk_findings_def image_iff)

lemma no_output_not_weak:
  "\<not> any_weak ''No output or scan failed.''" "\<not> any_weak []"
  by (simp_all add: any_weak_def WEAK_TLS_INDICATORS_def)

text \<open>
  The weak targets form a dictionary for every input, so a weak target is counted among
  the high-risk findings exactly when its own matched lines pass the test.
\<close>

lemma fold_classify_distinct:
  "distinct (map fst (weak_targets st)) \<Longrightarrow>
   distinct (map fst (weak_targets (fold classify_target rs st)))"
  by (induction rs arbitrary: st) (auto simp: classify_target_def distinct_update)

lemma weak_targets_distinct: "distinct (map fst (weak_targets (classify_targets rs)))"
  by (simp add: classify_targets_def fold_classify_distinct)

lemma high_risk_member:
  assumes "distinct (map fst weak)" and "map_of weak t = Some issues"
  shows "t \<in> set (high_risk_findings weak) \<longleftrightarrow> is_high_risk issues"
proof
  assume "t \<in> set (high_risk_findings weak)"
  then obtain issues' where m: "(t, issues') \<in> set weak" and h: "is_high_risk issues'"
    by (auto simp: high_risk_findings_def)
  have "map_of weak t = Some issues'"
    using assms(1) m by (rule map_of_is_SomeI)
  then show "is_high_risk issues"
    using assms(2) h by simp
next
  assume "is_high_risk issues"
  moreover have "(t, issues) \<in> set weak"
    using assms(2) by (rule map_of_SomeD)
  ultimately show "t \<in> set (high_risk_findings weak)"
    by (force simp: high_risk_findings_def)
qed

text \<open>
  Claim C2, as stated, fails. A target whose only matched line is \<open>TLSv1.0 enabled\<close>
  (the scenario of the claim), \<open>SSLv3 enabled\<close>, \<open>SSLv2 enabled\<close> or
  \<open>TLSv1.1 enabled\<close> is weak and is not counted among the high-risk findings.
\<close>

theorem risk_high_counterexample:
  "weak_targets (classify_targets [(''10.0.0.1'', ''TLSv1.0 enabled\<newline>AES256-GCM strong'')])
     = [(''10.0.0.1'', [''TLSv1.0 enabled''])]
   \<and> high_risk_findings
        (weak_targets (classify_targets [(''10.0.0.1'', ''TLSv1.0 enabled\<newline>AES256-GCM strong'')]))
     = []
   \<and> weak_targets (classify_targets [(''10.0.0.1'', ''SSLv3 enabled'')])
     = [(''10.0.0.1'', [''SSLv3 enabled''])]
   \<and> high_risk_findings (weak_targets (classify_targets [(''10.0.0.1'', ''SSLv3 enabled'')]))
     = []
   \<and> weak_targets (classify_targets [(''10.0.0.1'', ''SSLv2 enabled'')])
     = [(''10.0.0.1'', [''SSLv2 enabled''])]
   \<and> high_risk_findings (weak_targets (classify_targets [(''10.0.0.1'', ''SSLv2 enabled'')]))
     = []
   \<and> weak_targets (classify_targets [(''10.0.0.1'', ''TLSv1.1 enabled'')])
     = [(''10.0.0.1'', [''TLSv1.1 enabled''])]
   \<and> high_risk_findings (weak_targets (classify_targets [(''10.0.0.1'', ''TLSv1.1 enabled'')]))
     = []"
  by (simp add: classify_targets_def classify_target_def any_weak_def WEAK_TLS_INDICATORS_def
      high_risk_findings_def is_high_risk_def)

text \<open>
  Claim C2, amended. A weak target whose matched lines contain the marker \<open>RC4\<close> is
  counted among the high-risk findings. A weak target whose matched lines, joined end
  to end, contain neither \<open>RC4\<close> nor TLS 1.0 in either spelling (\<open>TLSv1.0\<close>,
  \<open>TLS 1.0\<close>) is not counted among them, whichever of \<open>SSLv2\<close>, \<open>SSLv3\<close>,
  \<open>TLSv1.1\<close> and the other markers they contain: these markers are no part of the
  high-risk test. The scenario of the claim yields a weak target with the matched lines
  \<open>["TLSv1.0 enabled"]\<close>.
\<close>

theorem risk_high_rc4_not_legacy:
  assumes "map_of (weak_targets (classify_targets scan_results)) target = Some issues"
  shows "((\<exists>line \<in> set issues. sublist ''RC4'' line)
            \<longrightarrow> target \<in> set (high_risk_findings (weak_targets (classify_targets scan_results))))
       \<and> (\<not> sublist ''RC4'' (concat issues) \<and> \<not> sublist ''TLSv1.0'' (concat issues)
            \<and> \<not> sublist ''TLS 1.0'' (concat issues)
            \<longrightarrow> target \<notin> set (high_risk_findings (weak_targets (classify_targets scan_results))))
       \<and> weak_targets (classify_targets [(''10.0.0.1'', ''TLSv1.0 enabled\<newline>AES256-GCM strong'')])
           = [(''10.0.0.1'', [''TLSv1.0 enabled''])]"
proof (intro conjI impI)
  note m = high_risk_member [OF weak_targets_distinct assms]
  show "target \<in> set (high_risk_findings (weak_targets (classify_targets scan_results)))"
    if "\<exists>line \<in> set issues. sublist ''RC4'' line"
  proof -
    have "is_high_risk issues"
      using that str_in_concat_member by (auto simp: is_high_risk_def)
    then show ?thesis using m by simp
  qed
  show "target \<notin> set (high_risk_findings (weak_targets (classify_targets scan_results)))"
    if "\<not> sublist ''RC4'' (concat issues) \<and> \<not> sublist ''TLSv1.0'' (concat issues)
          \<and> \<not> sublist ''TLS 1.0'' (concat issues)"
  proof -
    have "\<not> is_high_risk issues"
      using that by (simp add: is_high_risk_def str_in_sublist)
    then show ?thesis using m by simp
  qed
  show "weak_targets (classify_targets [(''10.0.0.1'', ''TLSv1.0 enabled\<newline>AES256-GCM strong'')])
           = [(''10.0.0.1'', [''TLSv1.0 enabled''])]"
    by (simp add: classify_targets_def classify_target_def any_weak_def WEAK_TLS_INDICATORS_def)
qed

text \<open>
  The theorem at a dictionary of a target with an RC4 cipher suite, counted, and a
  target with the three markers \<open>SSLv2\<close>, \<open>SSLv3\<close> and \<open>TLSv1.1\<close>, not counted.
\<close>

theorem risk_high_rc4_not_legacy_witness:
  "map_of (weak_targets (classify_targets
       [(''10.0.0.1'', ''TLS_RSA_WITH_RC4_128_SHA\<newline>TLS_AES_256_GCM_SHA384''),
        (''10.0.0.2'', ''SSLv2 on\<newline>SSLv3 on\<newline>TLSv1.1 on'')])) ''10.0.0.1''
     = Some [''TLS_RSA_WITH_RC4_128_SHA'']
   \<and> (\<exists>line \<in> set [''TLS_RSA_WITH_RC4_128_SHA'']. sublist ''RC4'' line)
   \<and> ''10.0.0.1'' \<in> set (high_risk_findings (weak_targets (classify_targets
       [(''10.0.0.1'', ''TLS_RSA_WITH_RC4_128_SHA\<newline>TLS_AES_256_GCM_SHA384''),
        (''10.0.0.2'', ''SSLv2 on\<newline>SSLv3 on\<newline>TLSv1.1 on'')])))
   \<and> map_of (weak_targets (classify_targets
       [(''10.0.0.1'', ''TLS_RSA_WITH_RC4_128_SHA\<newline>TLS_AES_256_GCM_SHA384''),
        (''10.0.0.2'', ''SSLv2 on\<newline>SSLv3 on\<newline>TLSv1.1 on'')])) ''10.0.0.2''
     = Some [''SSLv2 on'', ''SSLv3 on'', ''TLSv1.1 on'']
   \<and> \<not> sublist ''RC4'' (concat [''SSLv2 on'', ''SSLv3 on'', ''TLSv1.1 on''])
   \<and> \<not> sublist ''TLSv1.0'' (concat [''SSLv2 on'', ''SSLv3 on'', ''TLSv1.1 on''])
   \<and> \<not> sublist ''TLS 1.0'' (concat [''SSLv2 on'', ''SSLv3 on'', ''TLSv1.1 on''])
   \<and> ''10.0.0.2'' \<notin> set (high_risk_findings (weak_targets (classify_targets
       [(''10.0.0.1'', ''TLS_RSA_WITH_RC4_128_SHA\<newline>TLS_AES_256_GCM_SHA384''),
        (''10.0.0.2'', ''SSLv2 on\<newline>SSLv3 on\<newline>TLSv1.1 on'')])))"
proof -
  let ?rs = "[(''10.0.0.1'', ''TLS_RSA_WITH_RC4_128_SHA\<newline>TLS_AES_256_GCM_SHA384''),
              (''10.0.0.2'', ''SSLv2 on\<newline>SSLv3 on\<newline>TLSv1.1 on'')]"
  have h1: "map_of (weak_targets (classify_targets ?rs)) ''10.0.0.1''
              = Some [''TLS_RSA_WITH_RC4_128_SHA'']"
    by (simp add: classify_targets_def classify_target_def any_weak_def WEAK_TLS_INDICATORS_def)
  have h2: "\<exists>line \<in> set [''TLS_RSA_WITH_RC4_128_SHA'']. sublist ''RC4'' line"
    by (simp add: str_in_sublist [symmetric])
  have h3: "map_of (weak_targets (classify_targets ?rs)) ''10.0.0.2''
              = Some [''SSLv2 on'', ''SSLv3 on'', ''TLSv1.1 on'']"
    by (simp add: classify_targets_def classify_target_def any_weak_def WEAK_TLS_INDICATORS_def)
  have h4: "\<not> sublist ''RC4'' (concat [''SSLv2 on'', ''SSLv3 on'', ''TLSv1.1 on''])"
    "\<not> sublist ''TLSv1.0'' (concat [''SSLv2 on'', ''SSLv3 on'', ''TLSv1.1 on''])"
    "\<not> sublist ''TLS 1.0'' (concat [''SSLv2 on'', ''SSLv3 on'', ''TLSv1.1 on''])"
    by (simp_all add: str_in_sublist [symmetric])
  show ?thesis
    using h1 h2 h3 h4 risk_high_rc4_not_legacy [OF h1] risk_high_rc4_not_legacy [OF h3]
    by blast
qed

text \<open>
  Claim C3, as stated, fails. A target with one matched line naming \<open>RC4\<close> and one
  naming \<open>CBC\<close> is counted among the high-risk and among the medium-risk findings.
\<close>

theorem risk_medium_counterexample:
  "weak_targets (classify_targets
      [(''10.0.0.1'', ''TLS_RSA_WITH_RC4_128_SHA\<newline>TLS_RSA_WITH_AES_128_CBC_SHA'')])
     = [(''10.0.0.1'', [''TLS_RSA_WITH_RC4_128_SHA'', ''TLS_RSA_WITH_AES_128_CBC_SHA''])]
   \<and> high_risk_findings (weak_targets (classify_targets
      [(''10.0.0.1'', ''TLS_RSA_WITH_RC4_128_SHA\<newline>TLS_RSA_WITH_AES_128_CBC_SHA'')]))
     = [''10.0.0.1'']
   \<and> medium_risk_findings (weak_targets (classify_targets
      [(''10.0.0.1'', ''TLS_RSA_WITH_RC4_128_SHA\<newline>TLS_RSA_WITH_AES_128_CBC_SHA'')]))
     = [''10.0.0.1'']"
  by (simp add: classify_targets_def classify_target_def any_weak_def WEAK_TLS_INDICATORS_def
      high_risk_findings_def is_high_risk_def medium_risk_findings_def is_medium_risk_def)

text \<open>
  Claim C3, amended. A weak target whose matched lines contain the marker \<open>CBC\<close> is
  counted among the medium-risk findings, whatever else its matched lines contain: the
  two counts are taken independently.
\<close>

theorem risk_medium_when_cbc:
  assumes "map_of (weak_targets (classify_targets scan_results)) target = Some issues"
    and "\<exists>line \<in> set issues. sublist ''CBC'' line"
  shows "target \<in> set (medium_risk_findings (weak_targets (classify_targets scan_results)))"
proof -
  have "(target, issues) \<in> set (weak_targets (classify_targets scan_results))"
    using assms(1) by (rule map_of_SomeD)
  moreover have "is_medium_risk issues"
    using assms(2) str_in_concat_member by (auto simp: is_medium_risk_def)
  ultimately show ?thesis
    by (force simp: medium_risk_findings_def)
qed

text \<open>The theorem at the target counted twice above.\<close>

theorem risk_medium_when_cbc_witness:
  "map_of (weak_targets (classify_targets
       [(''10.0.0.1'', ''TLS_RSA_WITH_RC4_128_SHA\<newline>TLS_RSA_WITH_AES_128_CBC_SHA'')])) ''10.0.0.1''
     = Some [''TLS_RSA_WITH_RC4_128_SHA'', ''TLS_RSA_WITH_AES_128_CBC_SHA'']
   \<and> (\<exists>line \<in> set [''TLS_RSA_WITH_RC4_128_SHA'', ''TLS_RSA_WITH_AES_128_CBC_SHA''].
         sublist ''CBC'' line)
   \<and> ''10.0.0.1'' \<in> set (medium_risk_findings (weak_targets (classify_targets
       [(''10.0.0.1'', ''TLS_RSA_WITH_RC4_128_SHA\<newline>TLS_RSA_WITH_AES_128_CBC_SHA'')])))"
proof -
  let ?rs = "[(''10.0.0.1'', ''TLS_RSA_WITH_RC4_128_SHA\<newline>TLS_RSA_WITH_AES_128_CBC_SHA'')]"
  have h1: "map_of (weak_targets (classify_targets ?rs)) ''10.0.0.1''
              = Some [''TLS_RSA_WITH_RC4_128_SHA'', ''TLS_RSA_WITH_AES_128_CBC_SHA'']"
    by (simp add: classify_targets_def classify_target_def any_weak_def WEAK_TLS_INDICATORS_def)
  have h2: "\<exists>line \<in> set [''TLS_RSA_WITH_RC4_128_SHA'', ''TLS_RSA_WITH_AES_128_CBC_SHA''].
              sublist ''CBC'' line"
    by (simp add: str_in_sublist [symmetric])
  show ?thesis
    using h1 h2 risk_medium_when_cbc [OF h1 h2] by blast
qed

section \<open>A scan without output\<close>

text \<open>
  Claim C4, as stated, fails. A target whose output is the sentence that replaces an
  empty standard output, or the empty text, is put in \<open>strong_targets\<close>, and
  \<open>weak_targets\<close> stays empty.
\<close>

theorem no_output_counterexample:
  "classify_targets [(''10.0.0.1'', ''No output or scan failed.'')]
     = \<lparr>strong_targets = [''10.0.0.1''], weak_targets = []\<rparr>
   \<and> classify_targets [(''10.0.0.1'', '''')]
     = \<lparr>strong_targets = [''10.0.0.1''], weak_targets = []\<rparr>"
  by (simp add: classify_targets_def classify_target_def any_weak_def WEAK_TLS_INDICATORS_def)

text \<open>
  Claim C4, amended. A target of a dictionary whose output is that sentence or the
  empty text is strong: it has no entry in \<open>weak_targets\<close>, hence no matched line, and
  is counted neither as high-risk nor as medium-risk.
\<close>

theorem no_output_is_strong:
  assumes "distinct (map fst scan_results)" and "(target, output) \<in> set scan_results"
    and "output = scan_output [] \<or> output = []"
  shows "target \<in> set (strong_targets (classify_targets scan_results))
       \<and> map_of (weak_targets (classify_targets scan_results)) target = None
       \<and> target \<notin> set (high_risk_findings (weak_targets (classify_targets scan_results)))
       \<and> target \<notin> set (medium_risk_findings (weak_targets (classify_targets scan_results)))"
proof -
  have n: "\<not> any_weak output"
    using assms(3) no_output_not_weak by (auto simp: scan_output_def)
  have s: "target \<in> set (strong_targets (classify_targets scan_results))"
    using strong_member [OF assms(1,2)] n by simp
  have w: "target \<notin> fst ` set (weak_targets (classify_targets scan_results))"
    using weak_member [OF assms(1,2)] n by simp
  have l: "map_of (weak_targets (classify_targets scan_results)) target = None"
    using weak_lookup [OF assms(1,2)] n by simp
  show ?thesis
    using s w l high_risk_findings_keys medium_risk_findings_keys by blast
qed

text \<open>The theorem at a dictionary of a failed scan and a weak target.\<close>

theorem no_output_is_strong_witness:
  "distinct (map fst [(''10.0.0.1'', ''No output or scan failed.''), (''10.0.0.2'', ''RC4'')])
   \<and> (''10.0.0.1'', ''No output or scan failed.'')
        \<in> set [(''10.0.0.1'', ''No output or scan failed.''), (''10.0.0.2'', ''RC4'')]
   \<and> ''No output or scan failed.'' = scan_output []
   \<and> ''10.0.0.1'' \<in> set (strong_targets (classify_targets
        [(''10.0.0.1'', ''No output or scan failed.''), (''10.0.0.2'', ''RC4'')]))
   \<and> map_of (weak_targets (classify_targets
        [(''10.0.0.1'', ''No output or scan failed.''), (''10.0.0.2'', ''RC4'')])) ''10.0.0.1'' = None"
proof -
  let ?rs = "[(''10.0.0.1'', ''No output or scan failed.''), (''10.0.0.2'', ''RC4'')]"
  have h1: "distinct (map fst ?rs)" by simp
  have h2: "(''10.0.0.1'', ''No output or scan failed.'') \<in> set ?rs" by simp
  have h3: "''No output or scan failed.'' = scan_output []" by (simp add: scan_output_def)
  have h3': "''No output or scan failed.'' = scan_output [] \<or> ''No output or scan failed.'' = []"
    using h3 by blast
  show ?thesis
    using h1 h2 h3 no_output_is_strong [OF h1 h2 h3'] by blast
qed

section \<open>The loop of a detail page\<close>

text \<open>
  From a cursor \<open>y\<close> not beyond 1300 the loop draws the first
  \<open>(1300 - y) div 25 + 1\<close> lines, the line of index \<open>i\<close> at \<open>y + 25 * i\<close>, and
  nothing from a cursor beyond 1300. A detail page starts at 220, which gives 44 lines.
\<close>

lemma render_lines_ops:
  "ops (render_lines f ls cv)
     = ops cv
       @ map (\<lambda>(i, line). DrawText (70, y_position cv + 25 * int i) line f
                              (if any_weak line then Red else Black))
           (enumerate 0
              (take (if 1300 < y_position cv then 0
                     else Suc (nat ((1300 - y_position cv) div 25))) ls))"
proof (induction ls arbitrary: cv)
  case Nil
  show ?case by simp
next
  case (Cons line rest)
  show ?case
  proof (cases "1300 < y_position cv")
    case True
    then show ?thesis by simp
  next
    case False
    define cv' where
      "cv' = advance 25 (if any_weak line then text_at 70 line f Red cv
                         else text_at 70 line f Black cv)"
    have y: "y_position cv' = y_position cv + 25"
      by (simp add: cv'_def advance_def text_at_def)
    have o: "ops cv' = ops cv @ [DrawText (70, y_position cv) line f
                                   (if any_weak line then Red else Black)]"
      by (simp add: cv'_def advance_def text_at_def)
    have r: "Suc (nat ((1300 - y_position cv) div 25))
               = Suc (if 1300 < y_position cv + 25 then 0
                      else Suc (nat ((1300 - (y_position cv + 25)) div 25)))"
      using False by auto
    have sh: "map (\<lambda>(i, line). DrawText (70, y_position cv + 25 * int i) line f
                                   (if any_weak line then Red else Black))
                (enumerate (Suc 0) xs)
              = map (\<lambda>(i, line). DrawText (70, y_position cv + 25 + 25 * int i) line f
                                   (if any_weak line then Red else Black))
                  (enumerate 0 xs)" for xs
      by (simp add: enumerate_Suc_eq comp_def case_prod_beta algebra_simps)
    have "ops (render_lines f (line # rest) cv) = ops (render_lines f rest cv')"
      using False by (simp add: cv'_def)
    also have "\<dots> = ops cv'
        @ map (\<lambda>(i, line). DrawText (70, y_position cv' + 25 * int i) line f
                               (if any_weak line then Red else Black))
            (enumerate 0
               (take (if 1300 < y_position cv' then 0
                      else Suc (nat ((1300 - y_position cv') div 25))) rest))"
      by (rule Cons.IH)
    finally show ?thesis
      using False by (simp add: y o r sh)
  qed
qed

lemma detail_page_eq:
  "detail_page fs (target, output)
     = Canvas (1000, 1400) White
         ([DrawText (100, 80) (''Scan Result for: '' @ target) (header_font fs) Black,
           OutlineRect (50, 200) (950, 1350) Black 3]
          @ map (\<lambda>(i, line). DrawText (70, 220 + 25 * int i) line (body_font fs)
                                 (if any_weak line then Red else Black))
              (enumerate 0 (take 44 (split_nl output))))"
  by (simp add: detail_page_def render_lines_ops)

text \<open>A text of \<open>n\<close> copies of a line \<open>l\<close>, each ended by a line feed, splits into them.\<close>

lemma split_nl_line:
  "CHR 0x0A \<notin> set l \<Longrightarrow> split_nl (l @ CHR 0x0A # rest) = l # split_nl rest"
  by (induction l) auto

lemma split_nl_replicate:
  "CHR 0x0A \<notin> set l \<Longrightarrow>
   split_nl (concat (replicate n (l @ [CHR 0x0A])) @ s) = replicate n l @ split_nl s"
  by (induction n) (simp_all add: split_nl_line)

lemma str_nat_0: "str_nat 0 = ''0''"
  by (subst str_nat.simps) (simp add: digit_char_def)

section \<open>The report of an empty dictionary\<close>

text \<open>
  Claim C6, as stated, fails. Where the file of the cover image exists, the report of
  an empty dictionary has three pages: the image comes before the cover page and the
  summary page.
\<close>

theorem empty_report_counterexample:
  "length (create_pdf \<lparr>cover_image = Some ''PNG'', bold_font_ok = True, regular_font_ok = True,
                        now = ''2025-01-01 00:00:00'', nmap_stdout = (\<lambda>target. []),
                        read_lines = (\<lambda>path. None)\<rparr>
             [] ''report.pdf'' ''2025-01-01 00:00:00'') = 3"
  by (simp add: create_pdf_def Let_def)

text \<open>
  Claim C6, amended. For an empty dictionary \<open>create_pdf\<close> returns the cover page and
  the summary page and no detail page, after the cover image where its file exists:
  two pages without the image, three with it. The five counts of the cover page are
  \<open>0\<close> and the summary page has the two sentences that say nothing was found.
\<close>

theorem empty_report:
  "create_pdf w [] output_pdf scan_date
     = (case cover_image w of Some img \<Rightarrow> [CoverImage img (1000, 1454)] | None \<Rightarrow> [])
       @ [Canvas (1000, 1400) White
            [FillRect (0, 0) (1000, 200) Black,
             DrawText (250, 80) ''TLS/SSL Scan Report'' (title_font (load_fonts w)) Red,
             FillRect (0, 1250) (1000, 1400) Black,
             DrawText (300, 1300) ''Confidential Security Report''
               (header_font (load_fonts w)) Red,
             DrawText (100, 300) ''Prepared by: Security Team''
               (header_font (load_fonts w)) Black,
             DrawText (100, 350) (''Date: '' @ scan_date) (header_font (load_fonts w)) Black,
             DrawText (100, 400) ''Report ID: TLS-SEC-2025-001''
               (header_font (load_fonts w)) Black,
             DrawText (100, 500) ''Scope: External TLS/SSL Security Assessment''
               (header_font (load_fonts w)) Black,
             DrawText (100, 550) ''Assessment Methodology: Automated & Manual Verification''
               (header_font (load_fonts w)) Black,
             DrawText (100, 600) ''Scanner Used: Nmap (ssl-enum-ciphers)''
               (header_font (load_fonts w)) Black,
             DrawText (100, 700) '' Security Findings Summary:''
               (header_font (load_fonts w)) Red,
             DrawText (100, 750) (bullet @ '' Number of Targets Scanned: 0'')
               (body_font (load_fonts w)) Black,
             DrawText (100, 800) (bullet @ '' Targets with Strong Ciphers: 0'')
               (body_font (load_fonts w)) Green,
             DrawText (100, 850) (bullet @ '' Targets with Weak Ciphers: 0'')
               (body_font (load_fonts w)) Red,
             DrawText (100, 900) (bullet @ '' High-Risk Findings: 0'')
               (body_font (load_fonts w)) Red,
             DrawText (100, 950) (bullet @ '' Medium-Risk Findings: 0'')
               (body_font (load_fonts w)) Orange,
             DrawText (100, 1000)
               (bullet @ '' Recommended Actions: Immediate Mitigation Required'')
               (body_font (load_fonts w)) Black],
          Canvas (1000, 1400) White
            [DrawText (100, 150) '' Strong Cipher Configuration:''
               (header_font (load_fonts w)) Black,
             DrawText (120, 200) '' No strong cipher configurations found!''
               (body_font (load_fonts w)) Black,
             DrawText (100, 280) '' Weak Ciphers/Protocols Detected:''
               (header_font (load_fonts w)) Black,
             DrawText (120, 330) '' No weak configurations detected!''
               (body_font (load_fonts w)) Black]]"
  by (simp add: create_pdf_def cover_page_def summary_page_def classify_targets_def
      high_risk_findings_def medium_risk_findings_def text_at_def advance_def str_nat_0 Let_def)

text \<open>The theorem in a world without the image file: two pages.\<close>

theorem empty_report_witness:
  "length (create_pdf \<lparr>cover_image = None, bold_font_ok = True, regular_font_ok = True,
                        now = ''2025-01-01 00:00:00'', nmap_stdout = (\<lambda>target. []),
                        read_lines = (\<lambda>path. None)\<rparr>
             [] ''report.pdf'' ''2025-01-01 00:00:00'') = 2"
  using empty_report [of "\<lparr>cover_image = None, bold_font_ok = True, regular_font_ok = True,
                        now = ''2025-01-01 00:00:00'', nmap_stdout = (\<lambda>target. []),
                        read_lines = (\<lambda>path. None)\<rparr>" "''report.pdf''" "''2025-01-01 00:00:00''"]
  by simp

section \<open>Detail pages\<close>

text \<open>
  Claim C7. After the cover image (if any), the cover page and the summary page,
  \<open>create_pdf\<close> returns one detail page for each item of \<open>scan_results\<close>, in the order
  of the items. A detail page has the title of its target and the frame, then one text
  for each line it renders, red exactly when the line contains a marker of the
  catalogue, else black.
\<close>

theorem detail_pages_one_per_target:
  "create_pdf w scan_results output_pdf scan_date
     = (case cover_image w of Some img \<Rightarrow> [CoverImage img (1000, 1454)] | None \<Rightarrow> [])
       @ [cover_page (load_fonts w) scan_results (classify_targets scan_results) scan_date,
          summary_page (load_fonts w) (classify_targets scan_results)]
       @ map (\<lambda>(target, output).
                Canvas (1000, 1400) White
                  ([DrawText (100, 80) (''Scan Result for: '' @ target)
                      (header_font (load_fonts w)) Black,
                    OutlineRect (50, 200) (950, 1350) Black 3]
                   @ map (\<lambda>(i, line).
                            DrawText (70, 220 + 25 * int i) line (body_font (load_fonts w))
                              (if \<exists>marker \<in> set WEAK_TLS_INDICATORS. sublist marker line
                               then Red else Black))
                       (enumerate 0 (take 44 (split_nl output)))))
           scan_results"
proof -
  have "detail_page (load_fonts w)
          = (\<lambda>(target, output).
                Canvas (1000, 1400) White
                  ([DrawText (100, 80) (''Scan Result for: '' @ target)
                      (header_font (load_fonts w)) Black,
                    OutlineRect (50, 200) (950, 1350) Black 3]
                   @ map (\<lambda>(i, line).
                            DrawText (70, 220 + 25 * int i) line (body_font (load_fonts w))
                              (if \<exists>marker \<in> set WEAK_TLS_INDICATORS. sublist marker line
                               then Red else Black))
                       (enumerate 0 (take 44 (split_nl output)))))"
    by (simp add: fun_eq_iff detail_page_eq any_weak_iff)
  then show ?thesis
    by (simp add: create_pdf_def Let_def)
qed

text \<open>The theorem at a dictionary of two targets, the first with a marker in one line.\<close>

theorem detail_pages_one_per_target_witness:
  "drop 2 (create_pdf \<lparr>cover_image = None, bold_font_ok = False, regular_font_ok = True,
                        now = ''2025-01-01 00:00:00'', nmap_stdout = (\<lambda>target. []),
                        read_lines = (\<lambda>path. None)\<rparr>
             [(''10.0.0.1'', ''RC4 x\<newline>ok''), (''10.0.0.2'', ''fine'')]
             ''report.pdf'' ''2025-01-01 00:00:00'')
   = [Canvas (1000, 1400) White
        [DrawText (100, 80) ''Scan Result for: 10.0.0.1'' DefaultFont Black,
         OutlineRect (50, 200) (950, 1350) Black 3,
         DrawText (70, 220) ''RC4 x'' DefaultFont Red,
         DrawText (70, 245) ''ok'' DefaultFont Black],
      Canvas (1000, 1400) White
        [DrawText (100, 80) ''Scan Result for: 10.0.0.2'' DefaultFont Black,
         OutlineRect (50, 200) (950, 1350) Black 3,
         DrawText (70, 220) ''fine'' DefaultFont Black]]"
  using detail_pages_one_per_target
          [of "\<lparr>cover_image = None, bold_font_ok = False, regular_font_ok = True,
                now = ''2025-01-01 00:00:00'', nmap_stdout = (\<lambda>target. []),
                read_lines = (\<lambda>path. None)\<rparr>"
              "[(''10.0.0.1'', ''RC4 x\<newline>ok''), (''10.0.0.2'', ''fine'')]"
              "''report.pdf''" "''2025-01-01 00:00:00''"]
  by (simp add: load_fonts_def WEAK_TLS_INDICATORS_def str_in_sublist [symmetric])

section \<open>Truncation of a detail page\<close>

text \<open>
  Claim C8. The number of pages does not depend on the length of the outputs: a
  detail page is never continued on another page. The lines rendered are a prefix of
  the lines of the output, each at a cursor of at most 1300, and where lines are left
  out the cursor of the first of them is beyond 1300. \<open>detail_page\<close> is total: it
  returns a page for every output. An output of 200 lines without a marker gives a page
  with its first 44 lines, all black.
\<close>

theorem detail_page_truncates:
  "length (create_pdf w scan_results output_pdf scan_date)
     = length (create_pdf w [] output_pdf scan_date) + length scan_results
   \<and> (\<exists>n \<le> length (split_nl output).
         detail_page fs (target, output)
           = Canvas (1000, 1400) White
               ([DrawText (100, 80) (''Scan Result for: '' @ target) (header_font fs) Black,
                 OutlineRect (50, 200) (950, 1350) Black 3]
                @ map (\<lambda>(i, line). DrawText (70, 220 + 25 * int i) line (body_font fs)
                                       (if any_weak line then Red else Black))
                    (enumerate 0 (take n (split_nl output))))
         \<and> (\<forall>i < n. 220 + 25 * int i \<le> 1300)
         \<and> (n < length (split_nl output) \<longrightarrow> 1300 < 220 + 25 * int n))
   \<and> (length (split_nl output) = 200 \<and> (\<forall>line \<in> set (split_nl output). \<not> any_weak line)
        \<longrightarrow> detail_page fs (target, output)
              = Canvas (1000, 1400) White
                  ([DrawText (100, 80) (''Scan Result for: '' @ target) (header_font fs) Black,
                    OutlineRect (50, 200) (950, 1350) Black 3]
                   @ map (\<lambda>(i, line). DrawText (70, 220 + 25 * int i) line (body_font fs) Black)
                       (enumerate 0 (take 44 (split_nl output)))))"
proof (intro conjI impI)
  show "length (create_pdf w scan_results output_pdf scan_date)
          = length (create_pdf w [] output_pdf scan_date) + length scan_results"
    by (simp add: create_pdf_def Let_def)
next
  let ?ls = "split_nl output"
  let ?n = "min 44 (length ?ls)"
  have "take ?n ?ls = take 44 ?ls"
    by (simp add: min_def)
  then have "detail_page fs (target, output)
           = Canvas (1000, 1400) White
               ([DrawText (100, 80) (''Scan Result for: '' @ target) (header_font fs) Black,
                 OutlineRect (50, 200) (950, 1350) Black 3]
                @ map (\<lambda>(i, line). DrawText (70, 220 + 25 * int i) line (body_font fs)
                                       (if any_weak line then Red else Black))
                    (enumerate 0 (take ?n ?ls)))"
    by (simp only: detail_page_eq)
  moreover have "\<forall>i < ?n. 220 + 25 * int i \<le> 1300"
    by auto
  moreover have "?n < length ?ls \<longrightarrow> 1300 < 220 + 25 * int ?n"
    by (auto simp: min_def)
  moreover have "?n \<le> length ?ls"
    by simp
  ultimately show "\<exists>n \<le> length ?ls.
         detail_page fs (target, output)
           = Canvas (1000, 1400) White
               ([DrawText (100, 80) (''Scan Result for: '' @ target) (header_font fs) Black,
                 OutlineRect (50, 200) (950, 1350) Black 3]
                @ map (\<lambda>(i, line). DrawText (70, 220 + 25 * int i) line (body_font fs)
                                       (if any_weak line then Red else Black))
                    (enumerate 0 (take n ?ls)))
         \<and> (\<forall>i < n. 220 + 25 * int i \<le> 1300)
         \<and> (n < length ?ls \<longrightarrow> 1300 < 220 + 25 * int n)"
    by blast
next
  assume a: "length (split_nl output) = 200 \<and> (\<forall>line \<in> set (split_nl output). \<not> any_weak line)"
  have "map (\<lambda>(i, line). DrawText (70, 220 + 25 * int i) line (body_font fs)
                            (if any_weak line then Red else Black))
          (enumerate 0 (take 44 (split_nl output)))
        = map (\<lambda>(i, line). DrawText (70, 220 + 25 * int i) line (body_font fs) Black)
            (enumerate 0 (take 44 (split_nl output)))"
    using a by (auto simp: in_set_enumerate_eq dest: in_set_takeD nth_mem)
  then show "detail_page fs (target, output)
              = Canvas (1000, 1400) White
                  ([DrawText (100, 80) (''Scan Result for: '' @ target) (header_font fs) Black,
                    OutlineRect (50, 200) (950, 1350) Black 3]
                   @ map (\<lambda>(i, line). DrawText (70, 220 + 25 * int i) line (body_font fs) Black)
                       (enumerate 0 (take 44 (split_nl output))))"
    by (simp only: detail_page_eq)
qed

text \<open>The theorem at an output of 200 lines \<open>ok\<close>.\<close>

theorem detail_page_truncates_witness:
  "length (split_nl (concat (replicate 199 (''ok'' @ [CHR 0x0A])) @ ''ok'')) = 200
   \<and> filter any_weak (split_nl (concat (replicate 199 (''ok'' @ [CHR 0x0A])) @ ''ok'')) = []
   \<and> detail_page \<lparr>title_font = DefaultFont, header_font = DefaultFont, body_font = DefaultFont\<rparr>
        (''10.0.0.1'', concat (replicate 199 (''ok'' @ [CHR 0x0A])) @ ''ok'')
      = Canvas (1000, 1400) White
          ([DrawText (100, 80) ''Scan Result for: 10.0.0.1'' DefaultFont Black,
            OutlineRect (50, 200) (950, 1350) Black 3]
           @ map (\<lambda>(i, line). DrawText (70, 220 + 25 * int i) line DefaultFont Black)
               (enumerate 0 (replicate 44 ''ok'')))"
proof -
  let ?out = "concat (replicate 199 (''ok'' @ [CHR 0x0A])) @ ''ok''"
  have s: "split_nl ?out = replicate 199 ''ok'' @ [''ok'']"
    by (subst split_nl_replicate) simp_all
  have h1: "length (split_nl ?out) = 200"
    unfolding s by simp
  have h2: "\<forall>line \<in> set (split_nl ?out). \<not> any_weak line"
    unfolding s by (simp add: any_weak_def WEAK_TLS_INDICATORS_def)
  have t: "take 44 (split_nl ?out) = replicate 44 ''ok''"
    unfolding s by simp
  have h3: "filter any_weak (split_nl ?out) = []"
    using h2 by (simp add: filter_empty_conv)
  show ?thesis
    using h1 h2 h3
      detail_page_truncates
        [of _ "[]" _ _ ?out
            "\<lparr>title_font = DefaultFont, header_font = DefaultFont, body_font = DefaultFont\<rparr>"
            "''10.0.0.1''"]
    by (simp only: t) simp
qed

section \<open>Determinism of the report\<close>

text \<open>
  Claim C9, as stated, fails. With the same dictionary and timestamp the pages differ
  between a run that finds the cover image file and one that does not, and between a run
  that loads the fonts and one that falls back to the default font. With the same world
  and timestamp, two dictionaries with the same classification and the same counts but
  different outputs give different detail pages.
\<close>

theorem composition_counterexample:
  "create_pdf \<lparr>cover_image = Some ''PNG'', bold_font_ok = True, regular_font_ok = True,
                now = ''2025-01-01 00:00:00'', nmap_stdout = (\<lambda>target. []),
                read_lines = (\<lambda>path. None)\<rparr>
     [(''10.0.0.1'', ''ok'')] ''report.pdf'' ''2025-01-01 00:00:00''
   \<noteq> create_pdf \<lparr>cover_image = None, bold_font_ok = True, regular_font_ok = True,
                  now = ''2025-01-01 00:00:00'', nmap_stdout = (\<lambda>target. []),
                  read_lines = (\<lambda>path. None)\<rparr>
       [(''10.0.0.1'', ''ok'')] ''report.pdf'' ''2025-01-01 00:00:00''
   \<and> create_pdf \<lparr>cover_image = None, bold_font_ok = True, regular_font_ok = True,
                now = ''2025-01-01 00:00:00'', nmap_stdout = (\<lambda>target. []),
                read_lines = (\<lambda>path. None)\<rparr>
     [(''10.0.0.1'', ''ok'')] ''report.pdf'' ''2025-01-01 00:00:00''
   \<noteq> create_pdf \<lparr>cover_image = None, bold_font_ok = False, regular_font_ok = True,
                  now = ''2025-01-01 00:00:00'', nmap_stdout = (\<lambda>target. []),
                  read_lines = (\<lambda>path. None)\<rparr>
       [(''10.0.0.1'', ''ok'')] ''report.pdf'' ''2025-01-01 00:00:00''
   \<and> classify_targets [(''10.0.0.1'', ''ok'')] = classify_targets [(''10.0.0.1'', ''fine'')]
   \<and> length [(''10.0.0.1'', ''ok'')] = length [(''10.0.0.1'', ''fine'')]
   \<and> create_pdf \<lparr>cover_image = None, bold_font_ok = True, regular_font_ok = True,
                now = ''2025-01-01 00:00:00'', nmap_stdout = (\<lambda>target. []),
                read_lines = (\<lambda>path. None)\<rparr>
     [(''10.0.0.1'', ''ok'')] ''report.pdf'' ''2025-01-01 00:00:00''
   \<noteq> create_pdf \<lparr>cover_image = None, bold_font_ok = True, regular_font_ok = True,
                  now = ''2025-01-01 00:00:00'', nmap_stdout = (\<lambda>target. []),
                  read_lines = (\<lambda>path. None)\<rparr>
       [(''10.0.0.1'', ''fine'')] ''report.pdf'' ''2025-01-01 00:00:00''"
proof (intro conjI)
  show "classify_targets [(''10.0.0.1'', ''ok'')] = classify_targets [(''10.0.0.1'', ''fine'')]"
    by (simp add: classify_targets_def classify_target_def any_weak_def WEAK_TLS_INDICATORS_def)
qed (simp_all add: create_pdf_def Let_def load_fonts_def detail_page_eq)

text \<open>
  Claim C9, amended. The pages are a function of the dictionary of targets and raw
  outputs, of the timestamp passed in and of the assets found (the cover image file,
  whether each of the two font files loads): two runs with the same dictionary, the same
  timestamp and the same assets return the same pages, whatever their clocks, scanners,
  other files and output paths.
\<close>

theorem composition_deterministic:
  assumes "cover_image w1 = cover_image w2"
    and "bold_font_ok w1 = bold_font_ok w2"
    and "regular_font_ok w1 = regular_font_ok w2"
  shows "create_pdf w1 scan_results output_pdf1 scan_date
           = create_pdf w2 scan_results output_pdf2 scan_date"
  using assms by (simp add: create_pdf_def load_fonts_def Let_def)

text \<open>The theorem at two worlds with different clocks, scanners and files.\<close>

theorem composition_deterministic_witness:
  "create_pdf \<lparr>cover_image = None, bold_font_ok = True, regular_font_ok = True,
                now = ''2025-01-01 00:00:00'', nmap_stdout = (\<lambda>target. ''RC4''),
                read_lines = (\<lambda>path. None)\<rparr>
     [(''10.0.0.1'', ''RC4\<newline>ok'')] ''first.pdf'' ''2025-01-01 00:00:00''
   = create_pdf \<lparr>cover_image = None, bold_font_ok = True, regular_font_ok = True,
                  now = ''2026-06-30 12:00:00'', nmap_stdout = (\<lambda>target. []),
                  read_lines = (\<lambda>path. Some [])\<rparr>
       [(''10.0.0.1'', ''RC4\<newline>ok'')] ''second.pdf'' ''2025-01-01 00:00:00''"
  by (rule composition_deterministic) simp_all

section \<open>The 44 lines of a detail page\<close>

text \<open>
  Claim C10. A detail page holds, after its title and frame, the first 44 lines of
  the output at most: the line of index \<open>i\<close> is drawn at the cursor \<open>220 + 25 * i\<close>,
  which is at most 1300 for \<open>i < 44\<close> and beyond 1300 for \<open>i = 44\<close>, and nothing is drawn
  for a line of index 44 or more.
\<close>

theorem detail_page_at_most_44_lines:
  "\<exists>drawn. detail_page fs (target, output) = Canvas (1000, 1400) White drawn
      \<and> length drawn = 2 + min 44 (length (split_nl output))
      \<and> (\<forall>i < min 44 (length (split_nl output)).
            220 + 25 * int i \<le> 1300
            \<and> drawn ! (2 + i)
                = DrawText (70, 220 + 25 * int i) (split_nl output ! i) (body_font fs)
                    (if any_weak (split_nl output ! i) then Red else Black))
      \<and> 1300 < 220 + 25 * int 44"
proof -
  let ?ls = "split_nl output"
  let ?head = "[DrawText (100, 80) (''Scan Result for: '' @ target) (header_font fs) Black,
                OutlineRect (50, 200) (950, 1350) Black 3]"
  let ?lines = "map (\<lambda>(i, line). DrawText (70, 220 + 25 * int i) line (body_font fs)
                                    (if any_weak line then Red else Black))
                  (enumerate 0 (take 44 ?ls))"
  have a: "detail_page fs (target, output) = Canvas (1000, 1400) White (?head @ ?lines)"
    by (rule detail_page_eq)
  have b: "length (?head @ ?lines) = 2 + min 44 (length ?ls)"
    by (simp add: min.commute)
  have c: "220 + 25 * int i \<le> 1300
           \<and> (?head @ ?lines) ! (2 + i)
               = DrawText (70, 220 + 25 * int i) (?ls ! i) (body_font fs)
                   (if any_weak (?ls ! i) then Red else Black)"
    if "i < min 44 (length ?ls)" for i
  proof -
    have "(?head @ ?lines) ! (2 + i) = ?lines ! i"
      by (simp add: nth_append)
    then show ?thesis
      using that by (simp add: nth_enumerate_eq)
  qed
  show ?thesis
    using a b c by (intro exI [of _ "?head @ ?lines"]) simp
qed

text \<open>The theorem at an output of two lines: four drawing calls, the two lines last.\<close>

theorem detail_page_at_most_44_lines_witness:
  "\<exists>drawn. detail_page \<lparr>title_font = DefaultFont, header_font = DefaultFont,
                            body_font = DefaultFont\<rparr>
               (''10.0.0.1'', ''RC4\<newline>ok'')
             = Canvas (1000, 1400) White drawn
      \<and> length drawn = 4
      \<and> drawn ! 2 = DrawText (70, 220) ''RC4'' DefaultFont Red
      \<and> drawn ! 3 = DrawText (70, 245) ''ok'' DefaultFont Black"
proof -
  let ?fs = "\<lparr>title_font = DefaultFont, header_font = DefaultFont, body_font = DefaultFont\<rparr>"
  have l: "split_nl ''RC4\<newline>ok'' = [''RC4'', ''ok'']"
    by simp
  obtain drawn where p: "detail_page ?fs (''10.0.0.1'', ''RC4\<newline>ok'')
                           = Canvas (1000, 1400) White drawn"
    and n: "length drawn = 2 + min 44 (length (split_nl ''RC4\<newline>ok''))"
    and d: "\<forall>i < min 44 (length (split_nl ''RC4\<newline>ok'')).
              220 + 25 * int i \<le> 1300
              \<and> drawn ! (2 + i)
                  = DrawText (70, 220 + 25 * int i) (split_nl ''RC4\<newline>ok'' ! i) (body_font ?fs)
                      (if any_weak (split_nl ''RC4\<newline>ok'' ! i) then Red else Black)"
    using detail_page_at_most_44_lines [of ?fs "''10.0.0.1''" "''RC4\<newline>ok''"] by blast
  have "drawn ! 2 = DrawText (70, 220) ''RC4'' DefaultFont Red"
    using d [rule_format, of 0] unfolding l
    by (simp add: any_weak_def WEAK_TLS_INDICATORS_def)
  moreover have "drawn ! 3 = DrawText (70, 245) ''ok'' DefaultFont Black"
    using d [rule_format, of 1] unfolding l
    by (simp add: any_weak_def WEAK_TLS_INDICATORS_def)
  moreover have "length drawn = 4"
    using n unfolding l by simp
  ultimately show ?thesis
    using p by blast
qed

end
